theory Spec2Isabelle
  imports Complex_Main
begin

section \<open>Python values used by the services\<close>

text \<open>
  A Python \<open>str\<close> is a sequence of Unicode code points; it is modelled as the list of
  those code points. \<open>py\<close> turns an ASCII literal into such a list.
\<close>

type_synonym pystr = "nat list"

definition py :: "string \<Rightarrow> pystr" where
  "py s = map of_char s"

text \<open>
  \<open>str.isspace\<close> on one code point: the white space table of CPython 3
  (\<open>_PyUnicode_IsWhitespace\<close>), which is what \<open>str.strip()\<close> removes.
\<close>

definition isspace :: "nat \<Rightarrow> bool" where
  "isspace c \<longleftrightarrow>
     (9 \<le> c \<and> c \<le> 13) \<or> (28 \<le> c \<and> c \<le> 32) \<or> c = 133 \<or> c = 160 \<or> c = 5760 \<or>
     (8192 \<le> c \<and> c \<le> 8202) \<or> c = 8232 \<or> c = 8233 \<or> c = 8239 \<or> c = 8287 \<or> c = 12288"

definition strip :: "pystr \<Rightarrow> pystr" where
  "strip s = rev (dropWhile isspace (rev (dropWhile isspace s)))"

text \<open>
  \<open>str.lower\<close> and \<open>str.isalpha\<close> are given on the ASCII range. Above it
  \<open>lower\<close> leaves a code point as it is and \<open>isalpha\<close> answers \<open>False\<close>: the services
  compare lowered names with ASCII words only, and \<open>detect_language\<close> looks at
  \<open>isalpha\<close> only together with \<open>ord(char) < 128\<close>.
\<close>

definition lower_char :: "nat \<Rightarrow> nat" where
  "lower_char c = (if 65 \<le> c \<and> c \<le> 90 then c + 32 else c)"

definition lower :: "pystr \<Rightarrow> pystr" where
  "lower s = map lower_char s"

definition isalpha :: "nat \<Rightarrow> bool" where
  "isalpha c \<longleftrightarrow> (65 \<le> c \<and> c \<le> 90) \<or> (97 \<le> c \<and> c \<le> 122)"

text \<open>Exceptions are values: a call either raises or returns.\<close>

datatype pyexn = ValueError string | Exception string

datatype 'a outcome = Raises pyexn | Returns 'a

section \<open>translation\_service.py\<close>

text \<open>
  \<open>GeminiClient.translate_text(text, source, target)\<close> is the external gateway; its
  code is not part of the sources, so its behaviour is a parameter. A gateway answers
  a call, knowing the calls made before it, by raising or by returning a text: this
  covers a gateway that fails once and succeeds later.
\<close>

type_synonym gw_call = "pystr \<times> pystr \<times> pystr"

type_synonym gateway = "gw_call list \<Rightarrow> gw_call \<Rightarrow> pystr outcome"

text \<open>
  The state a call of \<open>translate\<close> works on: \<open>st.session_state.translation_cache\<close>
  and the calls the gateway has received so far (the counter of a call-counting
  gateway).
\<close>

record tstate =
  translation_cache :: "pystr \<rightharpoonup> pystr"
  gateway_calls :: "gw_call list"

definition supported_languages :: "pystr list" where
  "supported_languages = [py ''marathi'', py ''hindi'', py ''english'']"

definition detect_language :: "pystr \<Rightarrow> pystr" where
  "detect_language text =
     (if text \<noteq> [] \<and> list_ex (\<lambda>char. char < 128) (filter isalpha text)
      then py ''english'' else py ''marathi'')"

text \<open>The body of the \<open>try\<close> block of \<open>translate\<close> (lines 70 to 86).\<close>

definition translate_try ::
    "gateway \<Rightarrow> tstate \<Rightarrow> pystr \<Rightarrow> pystr \<Rightarrow> pystr \<Rightarrow> pystr outcome \<times> tstate" where
  "translate_try client s text target_language cache_key =
     (let source_lang = detect_language text in
      if source_lang = target_language then (Returns text, s)
      else
        let call = (text, source_lang, target_language);
            s1 = s\<lparr>gateway_calls := gateway_calls s @ [call]\<rparr>
        in case client (gateway_calls s) call of
             Raises e \<Rightarrow> (Raises e, s1)
           | Returns translated \<Rightarrow>
               (Returns translated,
                s1\<lparr>translation_cache := (translation_cache s1)(cache_key \<mapsto> translated)\<rparr>))"

text \<open>
  \<open>TranslationService.translate\<close>. \<open>gemini_client\<close> is \<open>None\<close> when no API key is
  configured. The \<open>except Exception\<close> handler turns a raise of the \<open>try\<close> block into
  the original text.
\<close>

definition translate ::
    "gateway option \<Rightarrow> tstate \<Rightarrow> pystr \<Rightarrow> pystr \<Rightarrow> pystr outcome \<times> tstate" where
  "translate gemini_client s text target_language0 =
     (if text = [] \<or> strip text = [] then (Returns text, s)
      else
        let target_language = lower target_language0 in
        if target_language \<notin> set supported_languages then (Returns text, s)
        else
          let cache_key = text @ py ''_'' @ target_language in
          case translation_cache s cache_key of
            Some cached \<Rightarrow> (Returns cached, s)
          | None \<Rightarrow>
              (case gemini_client of
                 None \<Rightarrow> (Returns text, s)
               | Some client \<Rightarrow>
                   (case translate_try client s text target_language cache_key of
                      (Raises e, s') \<Rightarrow> (Returns text, s')
                    | (Returns translated, s') \<Rightarrow> (Returns translated, s'))))"

definition clear_cache :: "tstate \<Rightarrow> tstate" where
  "clear_cache s = s\<lparr>translation_cache := Map.empty\<rparr>"

text \<open>
  A session of the service. \<open>__init__\<close> (lines 30 and 31) gives a session that has no
  cache an empty one; after that the cache is only touched by calls of \<open>translate\<close>
  and \<open>clear_cache\<close>, made one after the other on the same service, whose
  \<open>gemini_client\<close> is set once by \<open>__init__\<close>. \<open>serve\<close> is the state after a
  sequence of such calls.
\<close>

datatype request = Translate pystr pystr | ClearCache

definition new_session :: tstate where
  "new_session = \<lparr>translation_cache = Map.empty, gateway_calls = []\<rparr>"

fun serve :: "gateway option \<Rightarrow> tstate \<Rightarrow> request list \<Rightarrow> tstate" where
  "serve gemini_client s [] = s"
| "serve gemini_client s (Translate text target_language # requests) =
     serve gemini_client (snd (translate gemini_client s text target_language)) requests"
| "serve gemini_client s (ClearCache # requests) =
     serve gemini_client (clear_cache s) requests"

section \<open>crop\_rate.py\<close>

text \<open>
  Prices are Python floats; they are modelled as real numbers, with exact products
  and sums in place of the rounded ones of double arithmetic. The theorems below
  relate the values the code stores, appends and compares to one another; none of
  them bounds the result of a floating point operation. A \<open>datetime\<close> is only
  stored, never computed with: it is a number.
\<close>

type_synonym datetime = nat

record CropRate =
  crop_name :: pystr
  current_price :: real
  unit :: pystr
  market_location :: pystr
  last_updated :: datetime
  trend :: pystr
  historical_data :: "real list option"

text \<open>
  \<open>CropRate.__post_init__\<close> of crop\_rate.py, run by the constructor on the record
  built from its arguments: the checks in the order of the source.
\<close>

definition validate_CropRate :: "CropRate \<Rightarrow> CropRate outcome" where
  "validate_CropRate self =
     (if current_price self < 0 then Raises (ValueError ''Current price cannot be negative'')
      else if trend self \<notin> set [py ''up'', py ''down'', py ''stable'']
        then Raises (ValueError (''Trend must be 'up', 'down', or 'stable'' @ [CHR 0x27]))
      else if strip (crop_name self) = [] then Raises (ValueError ''Crop name cannot be empty'')
      else if strip (unit self) = [] then Raises (ValueError ''Unit cannot be empty'')
      else if strip (market_location self) = []
        then Raises (ValueError ''Market location cannot be empty'')
      else Returns self)"

section \<open>market\_service.py\<close>

text \<open>
  market\_service.py declares a \<open>CropRate\<close> class of its own, with the same fields.
  Its \<open>__post_init__\<close> has no check and no \<open>raise\<close>: it fills a missing history with
  seven prices around the current one and returns. \<open>draw i\<close> is the value of the
  \<open>i\<close>-th call of \<open>random.uniform(-200, 200)\<close>. The constructor of the class returns the
  record that \<open>__post_init__\<close> leaves.
\<close>

definition market_post_init :: "(nat \<Rightarrow> real) \<Rightarrow> CropRate \<Rightarrow> CropRate" where
  "market_post_init draw self =
     (case historical_data self of
        None \<Rightarrow>
          (let base_price = current_price self
           in self\<lparr>historical_data := Some (map (\<lambda>i. base_price + draw i) [0..<7])\<rparr>)
      | Some h \<Rightarrow> self)"

definition market_CropRate :: "(nat \<Rightarrow> real) \<Rightarrow> CropRate \<Rightarrow> CropRate outcome" where
  "market_CropRate draw args = Returns (market_post_init draw args)"

text \<open>
  The records are objects: the service's dictionary holds references to them, and
  \<open>update_mock_data\<close> changes them in place. \<open>heap\<close> maps a reference to the object
  it designates, \<open>mock_data\<close> is the dictionary in insertion order.
\<close>

type_synonym ref = nat

record mstate =
  heap :: "ref \<rightharpoonup> CropRate"
  mock_data :: "(pystr \<times> ref) list"

text \<open>
  The eight seeded records of \<open>_initialize_mock_data\<close>, as the arguments of the
  constructor calls (no history is passed), in the order of the source.
\<close>

definition seed :: "pystr \<Rightarrow> real \<Rightarrow> pystr \<Rightarrow> datetime \<Rightarrow> pystr \<Rightarrow> CropRate" where
  "seed name price location current_time tr =
     \<lparr>crop_name = name, current_price = price, unit = py ''quintal'',
      market_location = location, last_updated = current_time, trend = tr,
      historical_data = None\<rparr>"

definition mock_crops :: "datetime \<Rightarrow> (pystr \<times> CropRate) list" where
  "mock_crops current_time =
     [(py ''wheat'', seed (py ''Wheat ('' @ [2327, 2361, 2370, 2306] @ py '')'') 2500
         (py ''Pune Mandi'') current_time (py ''up'')),
      (py ''rice'', seed (py ''Rice ('' @ [2330, 2366, 2357, 2354] @ py '')'') 3200
         (py ''Mumbai Mandi'') current_time (py ''stable'')),
      (py ''onion'', seed (py ''Onion ('' @ [2325, 2366, 2306, 2342, 2366] @ py '')'') 1800
         (py ''Nashik Mandi'') current_time (py ''down'')),
      (py ''tomato'', seed (py ''Tomato ('' @ [2335, 2350, 2366, 2335, 2352] @ py '')'') 2200
         (py ''Pune Mandi'') current_time (py ''up'')),
      (py ''potato'', seed (py ''Potato ('' @ [2348, 2335, 2366, 2335, 2366] @ py '')'') 1500
         (py ''Delhi Mandi'') current_time (py ''stable'')),
      (py ''sugarcane'', seed (py ''Sugarcane ('' @ [2314, 2360] @ py '')'') 350
         (py ''Kolhapur Mandi'') current_time (py ''up'')),
      (py ''cotton'', seed (py ''Cotton ('' @ [2325, 2366, 2346, 2370, 2360] @ py '')'') 5800
         (py ''Nagpur Mandi'') current_time (py ''down'')),
      (py ''soybean'',
         seed (py ''Soybean ('' @ [2360, 2379, 2351, 2366, 2348, 2368, 2344] @ py '')'') 4200
         (py ''Indore Mandi'') current_time (py ''stable''))]"

text \<open>
  Constructing the records one after the other: the \<open>n\<close>-th object is allocated at
  reference \<open>n\<close>, and \<open>draws n\<close> are the random numbers its constructor uses.
\<close>

fun allocate :: "(nat \<Rightarrow> nat \<Rightarrow> real) \<Rightarrow> mstate \<Rightarrow> (pystr \<times> CropRate) list \<Rightarrow> mstate" where
  "allocate draws s [] = s"
| "allocate draws s ((crop_key, args) # rest) =
     (let r = length (mock_data s);
          crop = market_post_init (draws r) args
      in allocate draws
           (s\<lparr>heap := (heap s)(r \<mapsto> crop), mock_data := mock_data s @ [(crop_key, r)]\<rparr>) rest)"

definition initialize_mock_data :: "datetime \<Rightarrow> (nat \<Rightarrow> nat \<Rightarrow> real) \<Rightarrow> mstate" where
  "initialize_mock_data current_time draws =
     allocate draws \<lparr>heap = Map.empty, mock_data = []\<rparr> (mock_crops current_time)"

text \<open>
  \<open>get_current_rates\<close> returns \<open>self.mock_data.copy()\<close>: a new dictionary with the
  keys and the references of the service's dictionary. A dictionary is modelled by
  its content, so the copy is that content; what a caller reads through it is
  \<open>read_rate\<close>, the object a reference designates at the time of the reading.
\<close>

definition get_current_rates :: "mstate \<Rightarrow> (pystr \<times> ref) list" where
  "get_current_rates s = mock_data s"

definition read_rate :: "mstate \<Rightarrow> (pystr \<times> ref) list \<Rightarrow> pystr \<Rightarrow> CropRate option" where
  "read_rate s rates crop_key =
     (case map_of rates crop_key of None \<Rightarrow> None | Some r \<Rightarrow> heap s r)"

definition get_rate_by_crop :: "mstate \<Rightarrow> pystr \<Rightarrow> ref option" where
  "get_rate_by_crop s name =
     (let crop_key = filter (\<lambda>c. c \<noteq> 32) (lower name) in map_of (mock_data s) crop_key)"

text \<open>
  The slice \<open>xs[i:]\<close> of Python: a negative \<open>i\<close> counts from the end, and a start
  outside the list is clipped.
\<close>

definition slice_from :: "'a list \<Rightarrow> int \<Rightarrow> 'a list" where
  "slice_from xs i =
     (if i < 0 then drop (nat (int (length xs) + i)) xs else drop (nat i) xs)"

definition get_historical_trends :: "mstate \<Rightarrow> pystr \<Rightarrow> int \<Rightarrow> real list" where
  "get_historical_trends s name days =
     (case get_rate_by_crop s name of
        None \<Rightarrow> []
      | Some r \<Rightarrow>
          (case heap s r of
             None \<Rightarrow> []
           | Some crop \<Rightarrow>
               (case historical_data crop of
                  None \<Rightarrow> []
                | Some h \<Rightarrow>
                    if h = [] then []
                    else if days \<le> int (length h) then slice_from h (- days) else h)))"

text \<open>
  \<open>round(x, 2)\<close>: the nearest multiple of one hundredth, a tie going to the even one.
\<close>

definition round2 :: "real \<Rightarrow> real" where
  "round2 x =
     (let y = x * 100; f = \<lfloor>y\<rfloor>; d = y - of_int f
      in (if d < 1 / 2 then of_int f
          else if 1 / 2 < d then of_int (f + 1)
          else if even f then of_int f else of_int (f + 1)) / 100)"

text \<open>
  The body of the loop of \<open>update_mock_data\<close> on one record. \<open>variation\<close> is the value
  of \<open>random.uniform(-0.05, 0.05)\<close> and \<open>now\<close> that of \<open>datetime.now()\<close>.
\<close>

definition update_crop :: "real \<Rightarrow> datetime \<Rightarrow> CropRate \<Rightarrow> CropRate" where
  "update_crop variation now crop =
     (let new_price = current_price crop * (1 + variation);
          crop1 = crop\<lparr>trend :=
                    (if new_price > current_price crop then py ''up''
                     else if new_price < current_price crop then py ''down''
                     else py ''stable'')\<rparr>;
          crop2 = crop1\<lparr>current_price := round2 new_price, last_updated := now\<rparr>
      in case historical_data crop2 of
           None \<Rightarrow> crop2
         | Some h \<Rightarrow>
             if h = [] then crop2
             else
               let h1 = h @ [new_price]
               in crop2\<lparr>historical_data :=
                    Some (if length h1 > 30 then slice_from h1 (- 30) else h1)\<rparr>)"

text \<open>
  \<open>update_mock_data\<close>: the loop over the items of the dictionary. \<open>variation k\<close> and
  \<open>now k\<close> are the random number and the time read in the iteration of key \<open>k\<close>.
  A reference of the dictionary always designates an object; the model leaves the
  heap alone at a reference that does not.
\<close>

definition update_item ::
    "(pystr \<Rightarrow> real) \<Rightarrow> (pystr \<Rightarrow> datetime) \<Rightarrow> (ref \<rightharpoonup> CropRate) \<Rightarrow> pystr \<times> ref \<Rightarrow>
     (ref \<rightharpoonup> CropRate)" where
  "update_item variation now h item =
     (case item of (crop_key, r) \<Rightarrow>
        (case h r of
           None \<Rightarrow> h
         | Some crop \<Rightarrow> h(r \<mapsto> update_crop (variation crop_key) (now crop_key) crop)))"

definition update_mock_data ::
    "(pystr \<Rightarrow> real) \<Rightarrow> (pystr \<Rightarrow> datetime) \<Rightarrow> mstate \<Rightarrow> mstate" where
  "update_mock_data variation now s =
     s\<lparr>heap := foldl (update_item variation now) (heap s) (mock_data s)\<rparr>"

text \<open>A sequence of updates, each with its random numbers and its clock.\<close>

fun updates :: "((pystr \<Rightarrow> real) \<times> (pystr \<Rightarrow> datetime)) list \<Rightarrow> mstate \<Rightarrow> mstate" where
  "updates [] s = s"
| "updates ((variation, now) # ticks) s = updates ticks (update_mock_data variation now s)"

text \<open>
  The invariant of the store: no two items share an object, and the object of every
  item has a history that is neither empty nor longer than thirty entries.
\<close>

definition store_ok :: "mstate \<Rightarrow> bool" where
  "store_ok s \<longleftrightarrow>
     distinct (map snd (mock_data s)) \<and>
     (\<forall>item \<in> set (mock_data s). \<exists>crop h.
        heap s (snd item) = Some crop \<and> historical_data crop = Some h \<and>
        h \<noteq> [] \<and> length h \<le> 30)"

section \<open>app.py\<close>

text \<open>
  The price suggestion of \<open>render_negotiation_page\<close> (lines 248 to 256). The lines
  are part of the page renderer: they read \<open>st.session_state.user_role\<close>, compute
  \<open>suggested_price\<close> from \<open>selected_crop.current_price\<close> (here \<open>price\<close>), and show it with
  \<open>st.success\<close> and \<open>st.write\<close>. What Streamlit has been told to show is a list of
  widgets. A success box keeps the two values its message is formatted from: the
  label \<open>get_text('price_suggestion')\<close> and the price. The result is the final value
  of \<open>suggested_price\<close> and the page after the two calls.
\<close>

datatype widget = Success pystr real | Write pystr

definition price_suggestion ::
    "pystr \<Rightarrow> pystr \<Rightarrow> real \<Rightarrow> widget list \<Rightarrow> real \<times> widget list" where
  "price_suggestion user_role label price page =
     (let suggested_price = price in
      if user_role = py ''buyer'' then
        (let suggested_price = suggested_price * (95 / 100)
         in (suggested_price,
             page @ [Success label suggested_price,
                     Write (py ''*As a buyer, consider starting 5% below market rate*'')]))
      else
        (let suggested_price = suggested_price * (105 / 100)
         in (suggested_price,
             page @ [Success label suggested_price,
                     Write (py ''*As a seller, consider starting 5% above market rate*'')])))"

section \<open>The translation cache\<close>

text \<open>
  Claim C2. For a text that is neither empty nor white space only and a supported
  target language, when the cache holds an entry under the key of the pair,
  \<open>translate\<close> returns the cached value and leaves the state as it was: the cache is
  the same and the gateway has received no call.
\<close>

theorem translate_cache_hit:
  assumes "\<not> (text = [] \<or> strip text = [])"
    and "lower L \<in> set supported_languages"
    and "translation_cache s (text @ py ''_'' @ lower L) = Some v"
  shows "translate client s text L = (Returns v, s)"
  using assms by (simp add: translate_def Let_def)

theorem translate_cache_hit_witness:
  "\<not> (py ''hello'' = [] \<or> strip (py ''hello'') = []) \<and>
   lower (py ''HINDI'') \<in> set supported_languages \<and>
   translation_cache \<lparr>translation_cache = [py ''hello_hindi'' \<mapsto> py ''namaste''], gateway_calls = []\<rparr>
      (py ''hello'' @ py ''_'' @ lower (py ''HINDI'')) = Some (py ''namaste'') \<and>
   translate (Some (\<lambda>calls call. Returns (py ''unused'')))
      \<lparr>translation_cache = [py ''hello_hindi'' \<mapsto> py ''namaste''], gateway_calls = []\<rparr>
      (py ''hello'') (py ''HINDI'')
   = (Returns (py ''namaste''),
      \<lparr>translation_cache = [py ''hello_hindi'' \<mapsto> py ''namaste''], gateway_calls = []\<rparr>)"
proof -
  have a: "\<not> (py ''hello'' = [] \<or> strip (py ''hello'') = [])"
    by (simp add: py_def strip_def isspace_def)
  have b: "lower (py ''HINDI'') \<in> set supported_languages"
    by (simp add: py_def lower_def lower_char_def supported_languages_def)
  have c: "translation_cache \<lparr>translation_cache = [py ''hello_hindi'' \<mapsto> py ''namaste''], gateway_calls = []\<rparr>
      (py ''hello'' @ py ''_'' @ lower (py ''HINDI'')) = Some (py ''namaste'')"
    by (simp add: py_def lower_def lower_char_def)
  from a b c translate_cache_hit [OF a b c] show ?thesis by blast
qed

text \<open>
  With no gateway a session never changes: nothing is ever cached.
\<close>

lemma translate_no_client:
  "translate None s text L =
     (Returns (if text = [] \<or> strip text = [] \<or> lower L \<notin> set supported_languages then text
               else case translation_cache s (text @ py ''_'' @ lower L) of
                      None \<Rightarrow> text | Some cached \<Rightarrow> cached), s)"
  by (simp add: translate_def Let_def split: option.splits)

lemma serve_no_client:
  "translation_cache s = Map.empty \<Longrightarrow> serve None s requests = s"
proof (induction requests arbitrary: s)
  case Nil
  then show ?case by simp
next
  case (Cons request requests)
  show ?case
  proof (cases request)
    case (Translate body L)
    with Cons show ?thesis by (simp add: translate_no_client)
  next
    case ClearCache
    from Cons.prems have "clear_cache s = s" by (simp add: clear_cache_def)
    with ClearCache Cons show ?thesis by simp
  qed
qed

text \<open>
  When \<open>translate\<close> calls the gateway and the call raises, the handler returns the
  text; the call is recorded and nothing else changes.
\<close>

lemma translate_raised:
  assumes "gateway_calls (snd (translate (Some client) s text L)) \<noteq> gateway_calls s"
    and "client (gateway_calls s) (text, detect_language text, lower L) = Raises e"
  shows "translate (Some client) s text L
     = (Returns text, s\<lparr>gateway_calls := gateway_calls s @ [(text, detect_language text, lower L)]\<rparr>)"
  using assms
  by (auto simp add: translate_def translate_try_def Let_def split: option.splits if_splits)

text \<open>
  Claim C1. In any state of a session, for every text and target language: if no
  gateway is configured, or if \<open>translate\<close> calls the gateway and the call raises,
  then \<open>translate\<close> returns the original text (it does not raise) and the cache is
  what it was before the call.
\<close>

theorem translate_failure_returns_text:
  assumes "s = serve gemini_client new_session requests"
    and "gemini_client = None \<or>
      (\<exists>client e. gemini_client = Some client \<and>
         gateway_calls (snd (translate gemini_client s text L)) \<noteq> gateway_calls s \<and>
         client (gateway_calls s) (text, detect_language text, lower L) = Raises e)"
  shows "fst (translate gemini_client s text L) = Returns text \<and>
     translation_cache (snd (translate gemini_client s text L)) = translation_cache s"
  using assms(2)
proof
  assume none: "gemini_client = None"
  have "translation_cache new_session = Map.empty" by (simp add: new_session_def)
  then have "serve None new_session requests = new_session" by (rule serve_no_client)
  with assms(1) none have "translation_cache s = Map.empty" by (simp add: new_session_def)
  with none show ?thesis by (simp add: translate_no_client)
next
  assume "\<exists>client e. gemini_client = Some client \<and>
         gateway_calls (snd (translate gemini_client s text L)) \<noteq> gateway_calls s \<and>
         client (gateway_calls s) (text, detect_language text, lower L) = Raises e"
  then obtain client e where c: "gemini_client = Some client"
    and called: "gateway_calls (snd (translate (Some client) s text L)) \<noteq> gateway_calls s"
    and raised: "client (gateway_calls s) (text, detect_language text, lower L) = Raises e"
    by auto
  from translate_raised [OF called raised] c show ?thesis by simp
qed

theorem translate_failure_returns_text_witness:
  "translate (Some (\<lambda>calls call. Raises (Exception ''quota'')))
     (serve (Some (\<lambda>calls call. Raises (Exception ''quota''))) new_session
        [Translate (py ''hello'') (py ''hindi''), ClearCache])
     (py ''Can you do 2400?'') (py ''Hindi'')
   = (Returns (py ''Can you do 2400?''),
      \<lparr>translation_cache = Map.empty,
       gateway_calls = [(py ''hello'', py ''english'', py ''hindi''),
                        (py ''Can you do 2400?'', py ''english'', py ''hindi'')]\<rparr>)"
proof -
  define client :: gateway where "client = (\<lambda>calls call. Raises (Exception ''quota''))"
  define s where "s = serve (Some client) new_session [Translate (py ''hello'') (py ''hindi''), ClearCache]"
  have s: "s = \<lparr>translation_cache = Map.empty,
       gateway_calls = [(py ''hello'', py ''english'', py ''hindi'')]\<rparr>"
    unfolding s_def client_def
    by (simp add: new_session_def clear_cache_def translate_def translate_try_def Let_def py_def
        lower_def lower_char_def supported_languages_def detect_language_def isalpha_def
        strip_def isspace_def)
  have v: "translate (Some client) s (py ''Can you do 2400?'') (py ''Hindi'')
     = (Returns (py ''Can you do 2400?''),
      \<lparr>translation_cache = Map.empty,
       gateway_calls = [(py ''hello'', py ''english'', py ''hindi''),
                        (py ''Can you do 2400?'', py ''english'', py ''hindi'')]\<rparr>)"
    unfolding s client_def
    by (simp add: translate_def translate_try_def Let_def py_def
        lower_def lower_char_def supported_languages_def detect_language_def isalpha_def
        strip_def isspace_def)
  have h: "Some client = None \<or>
      (\<exists>c e. Some client = Some c \<and>
         gateway_calls (snd (translate (Some client) s (py ''Can you do 2400?'') (py ''Hindi'')))
           \<noteq> gateway_calls s \<and>
         c (gateway_calls s)
           (py ''Can you do 2400?'', detect_language (py ''Can you do 2400?''), lower (py ''Hindi''))
          = Raises e)"
    unfolding v by (simp add: s client_def)
  from translate_failure_returns_text [OF s_def h] v show ?thesis
    unfolding s_def client_def by simp
qed

text \<open>
  Claim C3, as the code has it. When the gateway does not raise on the call of the
  first \<open>translate\<close>, the second \<open>translate\<close> of the same pair returns the same result
  and changes nothing (it makes no gateway call), and the first has made one gateway
  call at most.
\<close>

theorem translate_twice:
  assumes "gemini_client = None \<or>
      (\<exists>client translated. gemini_client = Some client \<and>
         client (gateway_calls s) (text, detect_language text, lower L) = Returns translated)"
  shows "translate gemini_client (snd (translate gemini_client s text L)) text L
           = translate gemini_client s text L \<and>
         length (gateway_calls (snd (translate gemini_client s text L)))
           \<le> length (gateway_calls s) + 1"
  using assms
  by (auto simp add: translate_def translate_try_def Let_def split: option.splits outcome.splits)

theorem translate_twice_witness:
  "(Some (\<lambda>calls call. Returns (py ''namaste'')) = (None :: gateway option) \<or>
    (\<exists>client translated. Some (\<lambda>calls call. Returns (py ''namaste'')) = Some client \<and>
      client (gateway_calls \<lparr>translation_cache = Map.empty, gateway_calls = []\<rparr>)
        (py ''hello'', detect_language (py ''hello''), lower (py ''hindi'')) = Returns translated)) \<and>
   translate (Some (\<lambda>calls call. Returns (py ''namaste'')))
     (snd (translate (Some (\<lambda>calls call. Returns (py ''namaste'')))
        \<lparr>translation_cache = Map.empty, gateway_calls = []\<rparr> (py ''hello'') (py ''hindi'')))
     (py ''hello'') (py ''hindi'')
   = (Returns (py ''namaste''),
      \<lparr>translation_cache = [py ''hello_hindi'' \<mapsto> py ''namaste''],
       gateway_calls = [(py ''hello'', py ''english'', py ''hindi'')]\<rparr>)"
proof -
  have h: "Some (\<lambda>calls call. Returns (py ''namaste'')) = (None :: gateway option) \<or>
    (\<exists>client translated. Some (\<lambda>calls call. Returns (py ''namaste'')) = Some client \<and>
      client (gateway_calls \<lparr>translation_cache = Map.empty, gateway_calls = []\<rparr>)
        (py ''hello'', detect_language (py ''hello''), lower (py ''hindi'')) = Returns translated)"
    by auto
  have v: "translate (Some (\<lambda>calls call. Returns (py ''namaste'')))
        \<lparr>translation_cache = Map.empty, gateway_calls = []\<rparr> (py ''hello'') (py ''hindi'')
     = (Returns (py ''namaste''),
      \<lparr>translation_cache = [py ''hello_hindi'' \<mapsto> py ''namaste''],
       gateway_calls = [(py ''hello'', py ''english'', py ''hindi'')]\<rparr>)"
    by (simp add: translate_def translate_try_def Let_def py_def lower_def lower_char_def
      supported_languages_def detect_language_def isalpha_def strip_def isspace_def)
  from translate_twice [OF h] v h show ?thesis by simp
qed

text \<open>
  A failure is not cached: with a gateway that raises, both calls of \<open>translate\<close>
  invoke the gateway for the same pair.
\<close>

theorem translate_twice_counterexample:
  "gateway_calls (snd (translate (Some (\<lambda>calls call. Raises (Exception ''unavailable'')))
     (snd (translate (Some (\<lambda>calls call. Raises (Exception ''unavailable'')))
        \<lparr>translation_cache = Map.empty, gateway_calls = []\<rparr> (py ''hello'') (py ''hindi'')))
     (py ''hello'') (py ''hindi'')))
   = [(py ''hello'', py ''english'', py ''hindi''), (py ''hello'', py ''english'', py ''hindi'')]"
  by (simp add: translate_def translate_try_def Let_def py_def lower_def lower_char_def
      supported_languages_def detect_language_def isalpha_def strip_def isspace_def)

section \<open>Updates of the rate store\<close>

text \<open>
  The loop of \<open>update_mock_data\<close> changes the object of each item and no other. When
  no two items share an object, the object of item \<open>(k, r)\<close> is updated once, with
  the random number and the time of \<open>k\<close>.
\<close>

lemma update_item_other:
  "r \<noteq> snd item \<Longrightarrow> update_item v now h item r = h r"
  by (cases item) (simp add: update_item_def split: option.splits)

lemma foldl_update_item_other:
  "r \<notin> snd ` set items \<Longrightarrow> foldl (update_item v now) h items r = h r"
  by (induction items arbitrary: h) (simp_all add: update_item_other)

lemma foldl_update_item:
  "distinct (map snd items) \<Longrightarrow> (k, r) \<in> set items \<Longrightarrow> h r = Some crop \<Longrightarrow>
   foldl (update_item v now) h items r = Some (update_crop (v k) (now k) crop)"
proof (induction items arbitrary: h)
  case Nil
  then show ?case by simp
next
  case (Cons item items)
  show ?case
  proof (cases "item = (k, r)")
    case True
    with Cons.prems have "r \<notin> snd ` set items" by force
    then have "foldl (update_item v now) (update_item v now h item) items r
        = update_item v now h item r"
      by (rule foldl_update_item_other)
    moreover from True Cons.prems(3)
    have "update_item v now h item r = Some (update_crop (v k) (now k) crop)"
      by (simp add: update_item_def)
    ultimately show ?thesis by simp
  next
    case False
    with Cons.prems have mem: "(k, r) \<in> set items" and d: "distinct (map snd items)"
      by simp_all
    from mem have "r \<in> snd ` set items" by force
    moreover from Cons.prems(1) have "snd item \<notin> snd ` set items" by simp
    ultimately have ne: "r \<noteq> snd item" by blast
    from ne Cons.prems(3) have "update_item v now h item r = Some crop"
      by (simp add: update_item_other)
    with d mem have "foldl (update_item v now) (update_item v now h item) items r
        = Some (update_crop (v k) (now k) crop)"
      by (rule Cons.IH [where h = "update_item v now h item"])
    then show ?thesis by simp
  qed
qed

lemma update_mock_data_read:
  "distinct (map snd (mock_data s)) \<Longrightarrow> (k, r) \<in> set (mock_data s) \<Longrightarrow> heap s r = Some crop \<Longrightarrow>
   heap (update_mock_data v now s) r = Some (update_crop (v k) (now k) crop)"
  by (simp add: update_mock_data_def foldl_update_item)

lemma mock_data_update_mock_data [simp]:
  "mock_data (update_mock_data v now s) = mock_data s"
  by (simp add: update_mock_data_def)

lemma mock_data_updates [simp]: "mock_data (updates ticks s) = mock_data s"
  by (induction ticks arbitrary: s) auto

lemma get_rate_by_crop_update [simp]:
  "get_rate_by_crop (update_mock_data v now s) name = get_rate_by_crop s name"
  by (simp add: get_rate_by_crop_def)

text \<open>What the body of the loop does to the fields of a record.\<close>

lemma update_crop_fields:
  "current_price (update_crop v now crop) = round2 (current_price crop * (1 + v))"
  "last_updated (update_crop v now crop) = now"
  "trend (update_crop v now crop) =
     (if current_price crop * (1 + v) > current_price crop then py ''up''
      else if current_price crop * (1 + v) < current_price crop then py ''down''
      else py ''stable'')"
  "crop_name (update_crop v now crop) = crop_name crop"
  by (simp_all add: update_crop_def Let_def split: option.splits)

text \<open>A slice from a negative start keeps the last entries.\<close>

lemma slice_from_negative:
  "0 < n \<Longrightarrow> slice_from xs (- n) = drop (length xs - nat n) xs"
proof -
  assume "0 < n"
  then have "nat (int (length xs) + - n) = length xs - nat n" by linarith
  with \<open>0 < n\<close> show ?thesis by (simp add: slice_from_def)
qed

lemma slice_from_last:
  assumes "h \<noteq> []" and "0 \<le> days" and "days \<le> int (length h)"
  shows "slice_from h (- days) \<noteq> [] \<and> last (slice_from h (- days)) = last h"
proof (cases "days = 0")
  case True
  with assms(1) show ?thesis by (simp add: slice_from_def)
next
  case False
  with assms(2) have pos: "0 < days" by simp
  then have "length h - nat days < length h" using assms(1) by (cases h) auto
  with pos show ?thesis by (simp add: slice_from_negative)
qed

lemma update_crop_history:
  "historical_data crop = Some h \<Longrightarrow> h \<noteq> [] \<Longrightarrow>
   historical_data (update_crop v now crop)
     = Some (drop (length h + 1 - 30) (h @ [current_price crop * (1 + v)]))"
  by (simp add: update_crop_def Let_def slice_from_negative)

lemma price_after_update:
  assumes "distinct (map snd (mock_data s))" and "(k, r) \<in> set (mock_data s)"
    and "map_option current_price (heap s r) = Some P"
  shows "map_option current_price (heap (update_mock_data v now s) r)
     = Some (round2 (P * (1 + v k)))"
proof -
  from assms(3) obtain crop where c: "heap s r = Some crop" and p: "current_price crop = P"
    by auto
  from update_mock_data_read [OF assms(1,2) c] p show ?thesis
    by (simp add: update_crop_fields)
qed

section \<open>The seeded store and its invariant\<close>

lemma mock_data_initialize:
  "mock_data (initialize_mock_data t draws) =
     [(py ''wheat'', 0), (py ''rice'', 1), (py ''onion'', 2), (py ''tomato'', 3),
      (py ''potato'', 4), (py ''sugarcane'', 5), (py ''cotton'', 6), (py ''soybean'', 7)]"
  by (simp add: initialize_mock_data_def mock_crops_def Let_def)

lemma heap_initialize:
  "(k, r) \<in> set (mock_data (initialize_mock_data t draws)) \<Longrightarrow>
   \<exists>crop. heap (initialize_mock_data t draws) r = Some crop \<and>
     historical_data crop = Some (map (\<lambda>i. current_price crop + draws r i) [0..<7])"
  unfolding mock_data_initialize
  by (auto simp add: initialize_mock_data_def mock_crops_def Let_def seed_def market_post_init_def)

lemma store_ok_initialize: "store_ok (initialize_mock_data t draws)"
proof -
  have "distinct (map snd (mock_data (initialize_mock_data t draws)))"
    by (simp add: mock_data_initialize)
  moreover have "\<exists>crop h. heap (initialize_mock_data t draws) (snd item) = Some crop \<and>
      historical_data crop = Some h \<and> h \<noteq> [] \<and> length h \<le> 30"
    if "item \<in> set (mock_data (initialize_mock_data t draws))" for item
  proof -
    from that have "(fst item, snd item) \<in> set (mock_data (initialize_mock_data t draws))"
      by simp
    from heap_initialize [OF this] show ?thesis by auto
  qed
  ultimately show ?thesis unfolding store_ok_def by blast
qed

lemma store_ok_update:
  assumes "store_ok s"
  shows "store_ok (update_mock_data v now s)"
proof -
  from assms have d: "distinct (map snd (mock_data s))" by (simp add: store_ok_def)
  have "\<exists>crop h. heap (update_mock_data v now s) (snd item) = Some crop \<and>
      historical_data crop = Some h \<and> h \<noteq> [] \<and> length h \<le> 30"
    if mem: "item \<in> set (mock_data s)" for item
  proof -
    from assms mem obtain crop h where c: "heap s (snd item) = Some crop"
      and h: "historical_data crop = Some h" "h \<noteq> []" "length h \<le> 30"
      unfolding store_ok_def by blast
    from mem have "(fst item, snd item) \<in> set (mock_data s)" by simp
    from update_mock_data_read [OF d this c]
    have "heap (update_mock_data v now s) (snd item)
        = Some (update_crop (v (fst item)) (now (fst item)) crop)" .
    moreover from h have "historical_data (update_crop (v (fst item)) (now (fst item)) crop)
        = Some (drop (length h + 1 - 30) (h @ [current_price crop * (1 + v (fst item))]))"
      by (simp add: update_crop_history)
    moreover from h have "drop (length h + 1 - 30) (h @ [current_price crop * (1 + v (fst item))]) \<noteq> []"
      by simp
    moreover from h 
    have "length (drop (length h + 1 - 30) (h @ [current_price crop * (1 + v (fst item))])) \<le> 30"
      by simp
    ultimately show ?thesis by blast
  qed
  with d show ?thesis by (simp add: store_ok_def)
qed

lemma store_ok_updates: "store_ok s \<Longrightarrow> store_ok (updates ticks s)"
  by (induction ticks arbitrary: s) (auto simp add: store_ok_update)

lemma heap_initialize_wheat:
  "map_option current_price (heap (initialize_mock_data t draws) 0) = Some 2500"
  by (simp add: initialize_mock_data_def mock_crops_def seed_def market_post_init_def Let_def)

section \<open>Price, trend and time stamp after an update\<close>




section \<open>The history of a record\<close>

text \<open>
  Claim C7. In the store that \<open>_initialize_mock_data\<close> builds, after any sequence of
  updates, every record has a history of one to thirty entries, and one more update
  appends the new price to it and keeps the last thirty entries.
\<close>

theorem history_capped:
  assumes "(k, r) \<in> set (mock_data (updates ticks (initialize_mock_data t draws)))"
  shows "\<exists>crop h.
      heap (updates ticks (initialize_mock_data t draws)) r = Some crop \<and>
      historical_data crop = Some h \<and> h \<noteq> [] \<and> length h \<le> 30 \<and>
      (\<exists>crop'.
         heap (update_mock_data variation now (updates ticks (initialize_mock_data t draws))) r
           = Some crop' \<and>
         historical_data crop'
           = Some (drop (length h + 1 - 30) (h @ [current_price crop * (1 + variation k)])))"
proof -
  define s where "s = updates ticks (initialize_mock_data t draws)"
  have ok: "store_ok s" unfolding s_def by (rule store_ok_updates) (rule store_ok_initialize)
  then have d: "distinct (map snd (mock_data s))" by (simp add: store_ok_def)
  from assms have mem: "(k, r) \<in> set (mock_data s)" by (simp add: s_def)
  with ok obtain crop h where c: "heap s r = Some crop"
    and h: "historical_data crop = Some h" "h \<noteq> []" "length h \<le> 30"
    unfolding store_ok_def by force
  from update_mock_data_read [OF d mem c]
  have "heap (update_mock_data variation now s) r
      = Some (update_crop (variation k) (now k) crop)" .
  moreover from h have "historical_data (update_crop (variation k) (now k) crop)
      = Some (drop (length h + 1 - 30) (h @ [current_price crop * (1 + variation k)]))"
    by (simp add: update_crop_history)
  ultimately show ?thesis using c h unfolding s_def by blast
qed

theorem history_capped_witness:
  "(py ''wheat'', 0) \<in> set (mock_data
      (updates [(\<lambda>k. 1 / 100, \<lambda>k. 1)] (initialize_mock_data 0 (\<lambda>n i. 0)))) \<and>
   (\<exists>crop h.
      heap (updates [(\<lambda>k. 1 / 100, \<lambda>k. 1)] (initialize_mock_data 0 (\<lambda>n i. 0))) 0 = Some crop \<and>
      historical_data crop = Some h \<and> h \<noteq> [] \<and> length h \<le> 30 \<and>
      (\<exists>crop'.
         heap (update_mock_data (\<lambda>k. 1 / 50) (\<lambda>k. 2)
                 (updates [(\<lambda>k. 1 / 100, \<lambda>k. 1)] (initialize_mock_data 0 (\<lambda>n i. 0)))) 0
           = Some crop' \<and>
         historical_data crop'
           = Some (drop (length h + 1 - 30) (h @ [current_price crop * (1 + 1 / 50)]))))"
proof -
  have m: "(py ''wheat'', 0) \<in> set (mock_data
      (updates [(\<lambda>k. 1 / 100, \<lambda>k. 1)] (initialize_mock_data 0 (\<lambda>n i. 0))))"
    by (simp add: mock_data_initialize)
  from history_capped [OF m, of "\<lambda>k. 1 / 50" "\<lambda>k. 2"] m show ?thesis by simp
qed

text \<open>
  Claim C10. After an update of a record whose history was not empty, the last entry
  of the history is the new price as computed, the last entry that
  \<open>get_historical_trends\<close> returns (for a number of days that is not negative) is
  that entry, and the current price of the record is that entry rounded to two
  decimals. The example after the theorem has a record whose current price, 2500,
  differs from the last entry of its history, 2500.0025.
\<close>

theorem price_is_rounded_last_entry:
  assumes "distinct (map snd (mock_data s))"
    and "get_rate_by_crop s name = Some r"
    and "(k, r) \<in> set (mock_data s)"
    and "heap s r = Some crop"
    and "historical_data crop = Some h" and "h \<noteq> []"
    and "0 \<le> days"
  shows "\<exists>crop' h'.
      heap (update_mock_data variation now s) r = Some crop' \<and>
      historical_data crop' = Some h' \<and> h' \<noteq> [] \<and>
      last h' = current_price crop * (1 + variation k) \<and>
      get_historical_trends (update_mock_data variation now s) name days \<noteq> [] \<and>
      last (get_historical_trends (update_mock_data variation now s) name days) = last h' \<and>
      current_price crop' = round2 (last h')"
proof -
  define crop' where "crop' = update_crop (variation k) (now k) crop"
  define h' where "h' = drop (length h + 1 - 30) (h @ [current_price crop * (1 + variation k)])"
  from update_mock_data_read [OF assms(1,3,4)]
  have heap': "heap (update_mock_data variation now s) r = Some crop'"
    by (simp add: crop'_def)
  have hist: "historical_data crop' = Some h'"
    using assms(5,6) by (simp add: crop'_def h'_def update_crop_history)
  have ne: "h' \<noteq> []" using assms(6) by (simp add: h'_def)
  have l: "last h' = current_price crop * (1 + variation k)"
    using assms(6) by (simp add: h'_def)
  have price: "current_price crop' = round2 (last h')"
    by (simp add: l crop'_def update_crop_fields)
  have g: "get_historical_trends (update_mock_data variation now s) name days
      = (if days \<le> int (length h') then slice_from h' (- days) else h')"
    using assms(2) heap' hist ne by (simp add: get_historical_trends_def)
  have "get_historical_trends (update_mock_data variation now s) name days \<noteq> [] \<and>
      last (get_historical_trends (update_mock_data variation now s) name days) = last h'"
    unfolding g using ne assms(7) by (simp add: slice_from_last)
  with heap' hist ne l price show ?thesis by blast
qed

theorem price_is_rounded_last_entry_witness:
  "distinct (map snd (mock_data
      \<lparr>heap = [0 \<mapsto> (seed (py ''Wheat'') 2500 (py ''Pune Mandi'') 0 (py ''up''))
                  \<lparr>historical_data := Some [2450, 2500]\<rparr>],
       mock_data = [(py ''wheat'', 0)]\<rparr>)) \<and>
   (\<exists>crop'.
      heap (update_mock_data (\<lambda>k. 1 / 1000000) (\<lambda>k. 1)
        \<lparr>heap = [0 \<mapsto> (seed (py ''Wheat'') 2500 (py ''Pune Mandi'') 0 (py ''up''))
                    \<lparr>historical_data := Some [2450, 2500]\<rparr>],
         mock_data = [(py ''wheat'', 0)]\<rparr>) 0 = Some crop' \<and>
      current_price crop' = 2500) \<and>
   last (get_historical_trends
      (update_mock_data (\<lambda>k. 1 / 1000000) (\<lambda>k. 1)
        \<lparr>heap = [0 \<mapsto> (seed (py ''Wheat'') 2500 (py ''Pune Mandi'') 0 (py ''up''))
                    \<lparr>historical_data := Some [2450, 2500]\<rparr>],
         mock_data = [(py ''wheat'', 0)]\<rparr>) (py ''Wheat'') 7) = 25000025 / 10000"
proof -
  define crop where "crop = (seed (py ''Wheat'') 2500 (py ''Pune Mandi'') 0 (py ''up''))
      \<lparr>historical_data := Some [2450, 2500]\<rparr>"
  define s where "s = \<lparr>heap = [0 \<mapsto> crop], mock_data = [(py ''wheat'', 0)]\<rparr>"
  have d: "distinct (map snd (mock_data s))" by (simp add: s_def)
  have g: "get_rate_by_crop s (py ''Wheat'') = Some 0"
    by (simp add: s_def get_rate_by_crop_def py_def lower_def lower_char_def)
  have m: "(py ''wheat'', 0) \<in> set (mock_data s)" by (simp add: s_def)
  have h: "heap s 0 = Some crop" by (simp add: s_def)
  have hd: "historical_data crop = Some [2450, 2500]" by (simp add: crop_def)
  have ne: "[2450, 2500 :: real] \<noteq> []" by simp
  have days: "(0::int) \<le> 7" by simp
  have p: "current_price crop = 2500" by (simp add: crop_def seed_def)
  have r: "round2 (25000025 / 10000) = 2500" by (simp add: round2_def)
  from price_is_rounded_last_entry [OF d g m h hd ne days, of "\<lambda>k. 1 / 1000000" "\<lambda>k. 1"]
  obtain crop' h' where a: "heap (update_mock_data (\<lambda>k. 1 / 1000000) (\<lambda>k. 1) s) 0 = Some crop'"
    and b: "last h' = current_price crop * (1 + 1 / 1000000)"
    and c: "last (get_historical_trends (update_mock_data (\<lambda>k. 1 / 1000000) (\<lambda>k. 1) s)
           (py ''Wheat'') 7) = last h'"
    and e: "current_price crop' = round2 (last h')"
    by blast
  from b have lh: "last h' = 25000025 / 10000" by (simp add: p)
  have "current_price crop' = 2500" unfolding e lh by (rule r)
  moreover have "last (get_historical_trends (update_mock_data (\<lambda>k. 1 / 1000000) (\<lambda>k. 1) s)
           (py ''Wheat'') 7) = 25000025 / 10000"
    unfolding c by (rule lh)
  ultimately show ?thesis using a d unfolding s_def crop_def by blast
qed

section \<open>The mapping returned by get\_current\_rates\<close>

text \<open>
  Claim C5, as the code has it. \<open>get_current_rates\<close> copies the dictionary, not the
  records: the returned mapping keeps its keys and references whatever the store does
  later, but a record read through it after \<open>update_mock_data\<close> is the updated record.
\<close>

theorem get_current_rates_shares_records:
  assumes "distinct (map snd (mock_data s))"
    and "map_of (get_current_rates s) k = Some r"
    and "heap s r = Some crop"
  shows "read_rate s (get_current_rates s) k = Some crop \<and>
     read_rate (update_mock_data variation now s) (get_current_rates s) k
       = Some (update_crop (variation k) (now k) crop) \<and>
     get_current_rates (update_mock_data variation now s) = get_current_rates s"
proof -
  from assms(2) have mem: "(k, r) \<in> set (mock_data s)"
    by (simp add: get_current_rates_def map_of_SomeD)
  from update_mock_data_read [OF assms(1) mem assms(3)] assms(2,3)
  show ?thesis by (simp add: read_rate_def get_current_rates_def)
qed

theorem get_current_rates_shares_records_witness:
  "distinct (map snd (mock_data
      \<lparr>heap = [0 \<mapsto> seed (py ''Wheat'') 2500 (py ''Pune Mandi'') 0 (py ''up'')],
       mock_data = [(py ''wheat'', 0)]\<rparr>)) \<and>
   read_rate
     (update_mock_data (\<lambda>k. 1 / 100) (\<lambda>k. 1)
        \<lparr>heap = [0 \<mapsto> seed (py ''Wheat'') 2500 (py ''Pune Mandi'') 0 (py ''up'')],
         mock_data = [(py ''wheat'', 0)]\<rparr>)
     (get_current_rates
        \<lparr>heap = [0 \<mapsto> seed (py ''Wheat'') 2500 (py ''Pune Mandi'') 0 (py ''up'')],
         mock_data = [(py ''wheat'', 0)]\<rparr>)
     (py ''wheat'')
   = Some (update_crop (1 / 100) 1 (seed (py ''Wheat'') 2500 (py ''Pune Mandi'') 0 (py ''up'')))"
proof -
  define crop where "crop = seed (py ''Wheat'') 2500 (py ''Pune Mandi'') 0 (py ''up'')"
  define s where "s = \<lparr>heap = [0 \<mapsto> crop], mock_data = [(py ''wheat'', 0)]\<rparr>"
  have d: "distinct (map snd (mock_data s))" by (simp add: s_def)
  have m: "map_of (get_current_rates s) (py ''wheat'') = Some 0"
    by (simp add: s_def get_current_rates_def)
  have h: "heap s 0 = Some crop" by (simp add: s_def)
  from get_current_rates_shares_records [OF d m h, of "\<lambda>k. 1 / 100" "\<lambda>k. 1"] d
  show ?thesis unfolding s_def crop_def by simp
qed

text \<open>
  The update is observable through a mapping obtained before it: the price of wheat
  read through the mapping is 2500 before the update and 2525 after it.
\<close>

theorem get_current_rates_counterexample:
  "map_option current_price
     (read_rate (initialize_mock_data 0 (\<lambda>n i. 0))
        (get_current_rates (initialize_mock_data 0 (\<lambda>n i. 0))) (py ''wheat'')) = Some 2500 \<and>
   map_option current_price
     (read_rate (update_mock_data (\<lambda>k. 1 / 100) (\<lambda>k. 1) (initialize_mock_data 0 (\<lambda>n i. 0)))
        (get_current_rates (initialize_mock_data 0 (\<lambda>n i. 0))) (py ''wheat'')) = Some 2525"
proof -
  define s0 where "s0 = initialize_mock_data 0 (\<lambda>n i. 0)"
  have d0: "distinct (map snd (mock_data s0))" and m0: "(py ''wheat'', 0) \<in> set (mock_data s0)"
    and l0: "map_of (mock_data s0) (py ''wheat'') = Some 0"
    by (simp_all add: s0_def mock_data_initialize)
  have p0: "map_option current_price (heap s0 0) = Some 2500"
    unfolding s0_def by (rule heap_initialize_wheat)
  have r: "round2 (2500 * (1 + 1 / 100)) = 2525" by (simp add: round2_def)
  have p1: "map_option current_price (heap (update_mock_data (\<lambda>k. 1 / 100) (\<lambda>k. 1) s0) 0)
      = Some 2525"
    using price_after_update [OF d0 m0 p0, of "\<lambda>k. 1 / 100" "\<lambda>k. 1"] by (simp only: r)
  from p0 p1 l0 show ?thesis
    unfolding s0_def [symmetric] by (simp add: read_rate_def get_current_rates_def)
qed

section \<open>get\_historical\_trends\<close>

text \<open>
  For a positive number of days the result is the last \<open>days\<close> entries of the
  history, all of them when there are fewer, and nothing for an unknown crop.
\<close>

lemma get_historical_trends_positive_days:
  assumes "get_rate_by_crop s name = Some r" and "heap s r = Some crop"
    and "historical_data crop = Some h" and "0 < days"
  shows "get_historical_trends s name days = drop (length h - nat days) h"
  using assms by (auto simp add: get_historical_trends_def slice_from_negative)

lemma get_historical_trends_unknown:
  "get_rate_by_crop s name = None \<Longrightarrow> get_historical_trends s name days = []"
  by (simp add: get_historical_trends_def)

text \<open>
  Claim C8 at \<open>days = 0\<close>. The last zero entries of a history are no entries, but the
  slice \<open>historical_data[-0:]\<close> is the whole list: for the seeded wheat record the seven
  entries are returned.
\<close>

theorem get_historical_trends_zero_days:
  "get_historical_trends (initialize_mock_data 0 (\<lambda>n i. real i)) (py ''wheat'') 0
     = [2500, 2501, 2502, 2503, 2504, 2505, 2506]"
  by (simp add: initialize_mock_data_def mock_crops_def seed_def market_post_init_def Let_def
      get_rate_by_crop_def get_historical_trends_def slice_from_def py_def lower_def
      lower_char_def upt_rec)

section \<open>Validation of a crop rate\<close>

text \<open>
  The constructor of crop\_rate.py raises a \<open>ValueError\<close> exactly for a negative price,
  an unknown trend, or a name, unit or market location that is empty after
  \<open>strip\<close>; otherwise it returns the record.
\<close>

lemma validate_CropRate_raises_iff:
  "(\<exists>msg. validate_CropRate self = Raises (ValueError msg)) \<longleftrightarrow>
     current_price self < 0 \<or> trend self \<notin> {py ''up'', py ''down'', py ''stable''} \<or>
     strip (crop_name self) = [] \<or> strip (unit self) = [] \<or> strip (market_location self) = []"
  by (simp add: validate_CropRate_def)

lemma validate_CropRate_returns_iff:
  "validate_CropRate self = Returns self \<longleftrightarrow>
     0 \<le> current_price self \<and> trend self \<in> {py ''up'', py ''down'', py ''stable''} \<and>
     strip (crop_name self) \<noteq> [] \<and> strip (unit self) \<noteq> [] \<and> strip (market_location self) \<noteq> []"
  by (auto simp add: validate_CropRate_def)

text \<open>
  Claim C4 on the class of market\_service.py, the one the rate store constructs: for
  a price of \<open>-1\<close> the constructor of crop\_rate.py raises, that of market\_service.py
  returns the record.
\<close>

theorem market_CropRate_accepts_negative_price:
  "validate_CropRate (seed (py ''Wheat'') (- 1) (py ''Pune Mandi'') 0 (py ''up''))
     = Raises (ValueError ''Current price cannot be negative'') \<and>
   market_CropRate (\<lambda>i. 0) (seed (py ''Wheat'') (- 1) (py ''Pune Mandi'') 0 (py ''up''))
     = Returns ((seed (py ''Wheat'') (- 1) (py ''Pune Mandi'') 0 (py ''up''))
         \<lparr>historical_data := Some [- 1, - 1, - 1, - 1, - 1, - 1, - 1]\<rparr>)"
  by (simp add: validate_CropRate_def market_CropRate_def market_post_init_def seed_def Let_def upt_rec)

section \<open>The suggested opening price\<close>

text \<open>
  Claim C9, as the code has it. The suggested price is \<open>0.95\<close> times the price for
  the buyer and \<open>1.05\<close> times for any other role; it is determined by the role and
  the price alone; on 1000 it is 950 and 1050. The computation is part of the page
  renderer and has effects: it appends to the page a success box showing the
  suggested price and a note for the role.
\<close>

theorem price_suggestion_by_role:
  "fst (price_suggestion user_role label price page) =
     (if user_role = py ''buyer'' then price * (95 / 100) else price * (105 / 100)) \<and>
   snd (price_suggestion user_role label price page) =
     page @ [Success label (fst (price_suggestion user_role label price page)),
             Write (if user_role = py ''buyer''
                    then py ''*As a buyer, consider starting 5% below market rate*''
                    else py ''*As a seller, consider starting 5% above market rate*'')] \<and>
   fst (price_suggestion (py ''buyer'') label 1000 page) = 950 \<and>
   fst (price_suggestion (py ''seller'') label 1000 page) = 1050"
  by (simp add: price_suggestion_def Let_def py_def)

text \<open>
  The computation is not free of side effects: on an empty page it leaves two widgets.
\<close>

theorem price_suggestion_counterexample:
  "snd (price_suggestion (py ''buyer'') (py ''Price Suggestion'') 1000 [])
     = [Success (py ''Price Suggestion'') 950,
        Write (py ''*As a buyer, consider starting 5% below market rate*'')] \<and>
   snd (price_suggestion (py ''buyer'') (py ''Price Suggestion'') 1000 []) \<noteq> []"
  by (simp add: price_suggestion_def Let_def)

end
